theory Spec2Isabelle
  imports Main
begin

section \<open>Python values, errors and sequences\<close>

text \<open>
  The model follows \<^verbatim>\<open>src/snorkel/models/context.py\<close>. Python integers are
  unbounded, so they are \<^typ>\<open>int\<close>; a raised exception is the left injection of
  a sum type.
\<close>

datatype py_error =
  AttributeError | TypeError | IndexError | NotImplementedError | NameError | ArgumentError

text \<open>
  The Python values that can stand in an attribute: \<open>None\<close>, an integer, a
  string, a list (or a tuple: the two slice and join alike), a dictionary, a bound
  method, named by its function, and a reference to any other object, named by its
  object identity (what \<open>is\<close> compares).
\<close>

datatype pyval =
  PNone | PInt int | PStr string | PObj nat | PList "pyval list"
  | PDict "(pyval \<times> pyval) list" | PMethod string

text \<open>
  A slice \<open>xs[start:stop]\<close> of a Python sequence: a negative bound counts from
  the end, and every bound is then clamped to \<open>[0, len(xs)]\<close>.
\<close>

definition slice_bound :: "nat \<Rightarrow> int \<Rightarrow> nat" where
  "slice_bound n i = (if i < 0 then nat (max 0 (i + int n)) else min (nat i) n)"

definition py_slice :: "'a list \<Rightarrow> int \<Rightarrow> int \<Rightarrow> 'a list" where
  "py_slice xs start stop =
     (let lo = slice_bound (length xs) start; hi = slice_bound (length xs) stop
      in take (hi - lo) (drop lo xs))"

text \<open>
  An index \<open>xs[i]\<close> of a Python list: \<open>-len(xs) \<le> i < len(xs)\<close> is in range,
  a negative index counting from the end; everything else raises \<open>IndexError\<close>.
\<close>

definition py_index :: "'a list \<Rightarrow> int \<Rightarrow> py_error + 'a" where
  "py_index xs i =
     (let n = int (length xs); j = (if i < 0 then i + n else i)
      in if 0 \<le> j \<and> j < n then Inr (xs ! nat j) else Inl IndexError)"

text \<open>
  \<open>v[start:stop]\<close> for a value: lists and strings have slices; a dictionary, a
  method, an integer and \<open>None\<close> raise \<open>TypeError\<close>.
\<close>

fun py_getslice :: "pyval \<Rightarrow> int \<Rightarrow> int \<Rightarrow> py_error + pyval" where
  "py_getslice (PList vs) start stop = Inr (PList (py_slice vs start stop))"
| "py_getslice (PStr s) start stop = Inr (PStr (py_slice s start stop))"
| "py_getslice v start stop = Inl TypeError"

text \<open>\<open>sep.join(...)\<close> over strings.\<close>

fun join_strs :: "string \<Rightarrow> string list \<Rightarrow> string" where
  "join_strs sep [] = []"
| "join_strs sep [x] = x"
| "join_strs sep (x # y # ys) = x @ sep @ join_strs sep (y # ys)"

fun is_str :: "pyval \<Rightarrow> bool" where
  "is_str (PStr s) = True"
| "is_str v = False"

fun str_of :: "pyval \<Rightarrow> string" where
  "str_of (PStr s) = s"
| "str_of v = []"

text \<open>
  \<open>sep.join(v)\<close>: a list is joined when each item is a string, a string is joined
  character by character, and every other case raises \<open>TypeError\<close>.
\<close>

fun py_join :: "string \<Rightarrow> pyval \<Rightarrow> py_error + string" where
  "py_join sep (PList vs) =
     (if list_all is_str vs then Inr (join_strs sep (map str_of vs)) else Inl TypeError)"
| "py_join sep (PStr s) = Inr (join_strs sep (map (\<lambda>c. [c]) s))"
| "py_join sep v = Inl TypeError"

section \<open>Sentence: the tokenized unit\<close>

text \<open>
  The columns of \<open>Sentence\<close> (and of \<open>Context\<close>, its base). \<open>oid\<close> is the
  identity of the Python object: \<open>Context.__eq__\<close> is \<open>self is other\<close>.
  The columns \<open>id\<close>, \<open>type\<close>, \<open>text\<close> and \<open>lemmas\<close> carry a prefix, their
  names being reserved. A nullable column is an option. \<open>other_attrs\<close> holds, by
  name, every attribute of the object that the class bodies do not fix: those of
  \<open>object\<close>, of the declarative base and of the mapper, and \<open>__table_args__\<close>,
  whose item the library builds.
\<close>

record sentence =
  oid :: nat
  sentence_id :: "int option"
  sentence_type :: string
  stable_id :: string
  document_id :: "int option"
  document :: "nat option"
  position :: int
  sentence_text :: string
  words :: "string list"
  char_offsets :: "int list"
  sentence_lemmas :: "string list option"
  poses :: "string list option"
  dep_parents :: "int list option"
  dep_labels :: "string list option"
  other_attrs :: "(string \<times> pyval) list"

definition opt_val :: "('a \<Rightarrow> pyval) \<Rightarrow> 'a option \<Rightarrow> pyval" where
  "opt_val f v = (case v of None \<Rightarrow> PNone | Some x \<Rightarrow> f x)"

definition str_list :: "string list \<Rightarrow> pyval" where
  "str_list xs = PList (map PStr xs)"

definition int_list :: "int list \<Rightarrow> pyval" where
  "int_list xs = PList (map PInt xs)"

text \<open>
  \<open>sentence.__getattribute__(a)\<close>: the columns, then what the bodies of
  \<open>Sentence\<close> and \<open>Context\<close> bind besides (\<open>__tablename__\<close>,
  \<open>__mapper_args__\<close> and the methods), then the other attributes of the object; a
  name found nowhere raises \<open>AttributeError\<close>.
\<close>

definition getattribute :: "sentence \<Rightarrow> string \<Rightarrow> py_error + pyval" where
  "getattribute c a =
     (if a = ''id'' then Inr (opt_val PInt (sentence_id c))
      else if a = ''type'' then Inr (PStr (sentence_type c))
      else if a = ''stable_id'' then Inr (PStr (stable_id c))
      else if a = ''document_id'' then Inr (opt_val PInt (document_id c))
      else if a = ''document'' then Inr (opt_val PObj (document c))
      else if a = ''position'' then Inr (PInt (position c))
      else if a = ''text'' then Inr (PStr (sentence_text c))
      else if a = ''words'' then Inr (str_list (words c))
      else if a = ''char_offsets'' then Inr (int_list (char_offsets c))
      else if a = ''lemmas'' then Inr (opt_val str_list (sentence_lemmas c))
      else if a = ''poses'' then Inr (opt_val str_list (poses c))
      else if a = ''dep_parents'' then Inr (opt_val int_list (dep_parents c))
      else if a = ''dep_labels'' then Inr (opt_val str_list (dep_labels c))
      else if a = ''__tablename__'' then Inr (PStr ''sentence'')
      else if a = ''__mapper_args__''
        then Inr (PDict [(PStr ''polymorphic_identity'', PStr ''sentence'')])
      else if a = ''_asdict'' \<or> a = ''__repr__'' \<or> a = ''__eq__'' \<or> a = ''__ne__'' \<or>
              a = ''__hash__''
        then Inr (PMethod a)
      else (case map_of (other_attrs c) a of
              None \<Rightarrow> Inl AttributeError
            | Some v \<Rightarrow> Inr v))"

section \<open>TemporarySpan and Span\<close>

text \<open>
  \<open>Span\<close> inherits every method of \<open>TemporarySpan\<close> but \<open>_get_instance\<close>, so
  one record models both and \<open>cls\<close> says which class the object has. \<open>span_id\<close>
  is the primary key of a \<open>Span\<close>, unassigned until the object is stored. The field
  \<open>context\<close> is \<open>span_context\<close> (the name is reserved).
\<close>

datatype span_class = TemporarySpan | Span

record span =
  cls :: span_class
  span_context :: sentence
  char_end :: int
  char_start :: int
  meta :: pyval
  span_id :: "int option"

text \<open>
  \<open>__init__(self, context=None, char_end=None, char_start=None, meta=None)\<close>, which
  both classes run.
\<close>

definition init :: "span_class \<Rightarrow> sentence \<Rightarrow> int \<Rightarrow> int \<Rightarrow> pyval \<Rightarrow> span" where
  "init k c ce cs m =
     \<lparr>cls = k, span_context = c, char_end = ce, char_start = cs, meta = m, span_id = None\<rparr>"

definition len :: "span \<Rightarrow> int" where
  "len s = char_end s - char_start s + 1"

subsection \<open>Equality\<close>

text \<open>
  Any Python object as the right operand: its attributes, by name. A name outside the
  map raises \<open>AttributeError\<close>.
\<close>

type_synonym pyobj = "string \<Rightarrow> pyval option"

definition getattr :: "pyobj \<Rightarrow> string \<Rightarrow> py_error + pyval" where
  "getattr x a = (case x a of None \<Rightarrow> Inl AttributeError | Some v \<Rightarrow> Inr v)"

text \<open>A span as such an object.\<close>

definition span_obj :: "span \<Rightarrow> pyobj" where
  "span_obj s = (\<lambda>a.
     if a = ''context'' then Some (PObj (oid (span_context s)))
     else if a = ''char_start'' then Some (PInt (char_start s))
     else if a = ''char_end'' then Some (PInt (char_end s))
     else if a = ''meta'' then Some (meta s)
     else None)"

text \<open>
  \<open>Context.__eq__\<close> is \<open>self is other\<close>; an integer equals only the same integer.
\<close>

definition context_eq :: "sentence \<Rightarrow> pyval \<Rightarrow> bool" where
  "context_eq c v = (v = PObj (oid c))"

definition int_eq :: "int \<Rightarrow> pyval \<Rightarrow> bool" where
  "int_eq i v = (v = PInt i)"

text \<open>
  The bodies of the two \<open>try\<close> blocks: \<open>and\<close> and \<open>or\<close> stop at the first operand
  that decides, so a later attribute is read only when the earlier comparisons leave the
  result open.
\<close>

definition eq_body :: "span \<Rightarrow> pyobj \<Rightarrow> py_error + bool" where
  "eq_body self other =
     (case getattr other ''context'' of
        Inl e \<Rightarrow> Inl e
      | Inr c \<Rightarrow>
          if \<not> context_eq (span_context self) c then Inr False
          else (case getattr other ''char_start'' of
                  Inl e \<Rightarrow> Inl e
                | Inr cs \<Rightarrow>
                    if \<not> int_eq (char_start self) cs then Inr False
                    else (case getattr other ''char_end'' of
                            Inl e \<Rightarrow> Inl e
                          | Inr ce \<Rightarrow> Inr (int_eq (char_end self) ce))))"

definition ne_body :: "span \<Rightarrow> pyobj \<Rightarrow> py_error + bool" where
  "ne_body self other =
     (case getattr other ''context'' of
        Inl e \<Rightarrow> Inl e
      | Inr c \<Rightarrow>
          if \<not> context_eq (span_context self) c then Inr True
          else (case getattr other ''char_start'' of
                  Inl e \<Rightarrow> Inl e
                | Inr cs \<Rightarrow>
                    if \<not> int_eq (char_start self) cs then Inr True
                    else (case getattr other ''char_end'' of
                            Inl e \<Rightarrow> Inl e
                          | Inr ce \<Rightarrow> Inr (\<not> int_eq (char_end self) ce))))"

text \<open>\<open>__eq__\<close> and \<open>__ne__\<close>: \<open>except AttributeError\<close> catches that error only.\<close>

definition span_eq :: "span \<Rightarrow> pyobj \<Rightarrow> py_error + bool" where
  "span_eq self other =
     (case eq_body self other of Inl AttributeError \<Rightarrow> Inr False | r \<Rightarrow> r)"

definition span_ne :: "span \<Rightarrow> pyobj \<Rightarrow> py_error + bool" where
  "span_ne self other =
     (case ne_body self other of Inl AttributeError \<Rightarrow> Inr True | r \<Rightarrow> r)"

subsection \<open>Offset mapping\<close>

text \<open>
  The loop of \<open>char_to_word_index\<close>: \<open>i\<close> is the loop variable (\<open>None\<close> before
  the first iteration), \<open>k\<close> the index \<open>enumerate\<close> gives next.
\<close>

fun scan_offsets :: "int \<Rightarrow> int option \<Rightarrow> int \<Rightarrow> int list \<Rightarrow> int option" where
  "scan_offsets ci i k [] = i"
| "scan_offsets ci i k (co # cos) =
     (if ci = co then Some k
      else if ci < co then Some (k - 1)
      else scan_offsets ci (Some k) (k + 1) cos)"

definition char_to_word_index :: "span \<Rightarrow> int \<Rightarrow> int option" where
  "char_to_word_index self ci = scan_offsets ci None 0 (char_offsets (span_context self))"

definition word_to_char_index :: "span \<Rightarrow> int \<Rightarrow> py_error + int" where
  "word_to_char_index self wi = py_index (char_offsets (span_context self)) wi"

definition get_word_start :: "span \<Rightarrow> int option" where
  "get_word_start self = char_to_word_index self (char_start self)"

definition get_word_end :: "span \<Rightarrow> int option" where
  "get_word_end self = char_to_word_index self (char_end self)"

text \<open>\<open>get_n\<close>: arithmetic on \<open>None\<close> raises \<open>TypeError\<close>.\<close>

definition get_n :: "span \<Rightarrow> py_error + int" where
  "get_n self =
     (case (get_word_end self, get_word_start self) of
        (Some we, Some ws) \<Rightarrow> Inr (we - ws + 1)
      | _ \<Rightarrow> Inl TypeError)"

subsection \<open>Attribute projection\<close>

text \<open>
  \<open>get_attrib_tokens\<close>: the attribute is read first, then the two bounds are
  computed (\<open>None + 1\<close> raises \<open>TypeError\<close>), then the slice is taken. A start of
  \<open>None\<close> cannot reach the slice: the end is \<open>None\<close> whenever the start is.
\<close>

definition get_attrib_tokens :: "span \<Rightarrow> string \<Rightarrow> py_error + pyval" where
  "get_attrib_tokens self a =
     (case getattribute (span_context self) a of
        Inl e \<Rightarrow> Inl e
      | Inr v \<Rightarrow>
          (case get_word_end self of
             None \<Rightarrow> Inl TypeError
           | Some we \<Rightarrow>
               (case get_word_start self of
                  None \<Rightarrow> py_getslice v 0 (we + 1)
                | Some ws \<Rightarrow> py_getslice v ws (we + 1))))"

definition get_attrib_span :: "span \<Rightarrow> string \<Rightarrow> string \<Rightarrow> py_error + string" where
  "get_attrib_span self a sep =
     (if a = ''words''
      then Inr (py_slice (sentence_text (span_context self)) (char_start self) (char_end self + 1))
      else (case get_attrib_tokens self a of
              Inl e \<Rightarrow> Inl e
            | Inr v \<Rightarrow> py_join sep v))"

definition get_span :: "span \<Rightarrow> string \<Rightarrow> py_error + string" where
  "get_span self sep = get_attrib_span self ''words'' sep"

subsection \<open>Containment, slicing, promotion\<close>

definition contains :: "span \<Rightarrow> span \<Rightarrow> bool" where
  "contains self other_span =
     (char_start other_span \<ge> char_start self \<and> char_end other_span \<le> char_end self)"

text \<open>
  The key of \<open>__getitem__\<close>: a \<open>slice\<close> object with its \<open>start\<close>, \<open>stop\<close> and
  \<open>step\<close> (each \<open>None\<close> or an integer), or any other value, such as an integer index.
\<close>

datatype key = Slice "int option" "int option" "int option" | Other pyval

text \<open>
  \<open>_get_instance(char_start=..., char_end=..., context=...)\<close>: \<open>TemporarySpan\<close>
  builds a \<open>TemporarySpan\<close>, \<open>Span\<close> overrides it and builds a \<open>Span\<close>; \<open>meta\<close>
  is not passed and takes its default \<open>None\<close>. The override runs only on an object
  of the class \<open>Span\<close>, which needs the class to exist.
\<close>

definition get_instance :: "span \<Rightarrow> int \<Rightarrow> int \<Rightarrow> sentence \<Rightarrow> span" where
  "get_instance self cs ce c =
     (case cls self of
        TemporarySpan \<Rightarrow> init TemporarySpan c ce cs PNone
      | Span \<Rightarrow> init Span c ce cs PNone)"

fun getitem :: "span \<Rightarrow> key \<Rightarrow> py_error + span" where
  "getitem self (Slice start stop step) =
     (let cs = (case start of None \<Rightarrow> char_start self | Some a \<Rightarrow> char_start self + a);
          ce = (case stop of
                  None \<Rightarrow> char_end self
                | Some b \<Rightarrow> if b \<ge> 0 then char_start self + b - 1 else char_end self + b)
      in Inr (get_instance self cs ce (span_context self)))"
| "getitem self (Other v) = Inl NotImplementedError"

text \<open>
  The class statement of \<open>Span\<close>. Its body ends the lines of \<open>char_start\<close> and
  \<open>char_end\<close> with a comma, so each name is bound to a one-element tuple holding the
  column, and then calls \<open>UniqueConstraint(parent_id, char_start, char_end)\<close>. The
  constraint of the library takes columns and column names; any other element raises
  \<open>ArgumentError\<close>. An exception in the body leaves the name \<open>Span\<close> unbound.
\<close>

datatype schema_item = ColumnItem string | NameItem string | TupleItem "schema_item list"

fun is_column_or_name :: "schema_item \<Rightarrow> bool" where
  "is_column_or_name (ColumnItem c) = True"
| "is_column_or_name (NameItem n) = True"
| "is_column_or_name (TupleItem xs) = False"

definition UniqueConstraint :: "schema_item list \<Rightarrow> py_error + unit" where
  "UniqueConstraint items =
     (if list_all is_column_or_name items then Inr () else Inl ArgumentError)"

definition Span_class_body :: "py_error + unit" where
  "Span_class_body =
     UniqueConstraint
       [ColumnItem ''parent_id'', TupleItem [ColumnItem ''char_start''],
        TupleItem [ColumnItem ''char_end'']]"

text \<open>
  \<open>promote\<close>: the call \<open>Span(context=..., char_start=..., char_end=...)\<close> looks the
  name \<open>Span\<close> up, which raises \<open>NameError\<close> when the class statement has
  failed; otherwise it builds a \<open>Span\<close> from the context and the two ends only
  (\<open>meta\<close> is not passed).
\<close>

definition promote :: "span \<Rightarrow> py_error + span" where
  "promote self =
     (case Span_class_body of
        Inl e \<Rightarrow> Inl NameError
      | Inr u \<Rightarrow> Inr (init Span (span_context self) (char_end self) (char_start self) PNone))"

section \<open>A sample unit\<close>

text \<open>
  The sentence \<open>The cat sat.\<close> with its four tokens, and the span of the characters
  4 to 10 (\<open>cat sat\<close>).
\<close>

definition ex_sentence :: sentence where
  "ex_sentence =
     \<lparr>oid = 1, sentence_id = Some 1, sentence_type = ''sentence'', stable_id = ''doc::sentence:0'',
      document_id = Some 1, document = Some 0, position = 0,
      sentence_text = ''The cat sat.'',
      words = [''The'', ''cat'', ''sat'', ''.''],
      char_offsets = [0, 4, 8, 11],
      sentence_lemmas = Some [''the'', ''cat'', ''sit'', ''.''],
      poses = Some [''DT'', ''NN'', ''VBD'', ''.''],
      dep_parents = Some [2, 3, 0, 3],
      dep_labels = Some [''det'', ''nsubj'', ''ROOT'', ''punct''],
      other_attrs = [(''__table_args__'', PList [PObj 3]), (''metadata'', PObj 4)]\<rparr>"

definition ex_span :: span where
  "ex_span = init TemporarySpan ex_sentence 10 4 PNone"

text \<open>The same span with a payload.\<close>

definition ex_meta_span :: span where
  "ex_meta_span = init TemporarySpan ex_sentence 10 4 (PStr ''gold'')"

text \<open>The span of the whole sentence.\<close>

definition full_span :: span where
  "full_span = init TemporarySpan ex_sentence 11 0 PNone"

text \<open>A unit with no tokens, and a span over it.\<close>

definition empty_sentence :: sentence where
  "empty_sentence =
     \<lparr>oid = 2, sentence_id = Some 2, sentence_type = ''sentence'', stable_id = ''doc::sentence:1'',
      document_id = Some 1, document = Some 0, position = 1,
      sentence_text = [], words = [], char_offsets = [],
      sentence_lemmas = Some [], poses = Some [], dep_parents = Some [], dep_labels = Some [],
      other_attrs = [(''__table_args__'', PList [PObj 3]), (''metadata'', PObj 4)]\<rparr>"

definition empty_span :: span where
  "empty_span = init TemporarySpan empty_sentence 0 0 PNone"

text \<open>An object with no attributes at all, such as \<open>None\<close> or an integer.\<close>

definition no_attrs :: pyobj where
  "no_attrs = (\<lambda>a. None)"

section \<open>Properties of the offset mapping\<close>

lemma ex_span_offsets: "char_offsets (span_context ex_span) = [0, 4, 8, 11]"
  by (simp add: ex_span_def init_def ex_sentence_def)

lemma strict_sorted_nth_mono:
  "sorted_wrt (<) (xs :: int list) \<Longrightarrow> i \<le> j \<Longrightarrow> j < length xs \<Longrightarrow> xs ! i \<le> xs ! j"
  by (cases "i = j") (auto simp: sorted_wrt_iff_nth_less less_imp_le)

text \<open>
  The scan over strictly increasing offsets, started at index \<open>k\<close>: when the first
  offset is at most \<open>ci\<close>, it stops at the last position whose offset is at most
  \<open>ci\<close>.
\<close>

lemma scan_offsets_floor:
  "sorted_wrt (<) cos \<Longrightarrow> cos \<noteq> [] \<Longrightarrow> hd cos \<le> ci \<Longrightarrow>
   \<exists>j<length cos. scan_offsets ci i k cos = Some (k + int j) \<and> cos ! j \<le> ci \<and>
     (\<forall>j'<length cos. j < j' \<longrightarrow> ci < cos ! j')"
proof (induction cos arbitrary: i k)
  case Nil
  then show ?case by simp
next
  case (Cons co cos)
  have co_le: "co \<le> ci" using Cons.prems by simp
  have above: "\<forall>y\<in>set cos. co < y" and sorted_tl: "sorted_wrt (<) cos"
    using Cons.prems by simp_all
  show ?case
  proof (cases "ci = co")
    case True
    have "\<forall>j'<length (co # cos). 0 < j' \<longrightarrow> ci < (co # cos) ! j'"
    proof (intro allI impI)
      fix j' assume "j' < length (co # cos)" "0 < j'"
      then obtain m where "j' = Suc m" "m < length cos" by (cases j') auto
      then show "ci < (co # cos) ! j'" using above True by simp
    qed
    then show ?thesis using True by (intro exI[of _ 0]) simp
  next
    case False
    then have lt: "co < ci" using co_le by simp
    show ?thesis
    proof (cases "cos = [] \<or> ci < hd cos")
      case True
      have res: "scan_offsets ci i k (co # cos) = Some k"
        using True lt by (cases cos) auto
      have "\<forall>j'<length (co # cos). 0 < j' \<longrightarrow> ci < (co # cos) ! j'"
      proof (intro allI impI)
        fix j' assume a: "j' < length (co # cos)" "0 < j'"
        then obtain m where m: "j' = Suc m" "m < length cos" by (cases j') auto
        then have ne: "cos \<noteq> []" by auto
        then have "ci < hd cos" using True by simp
        moreover have "hd cos \<le> cos ! m"
        proof (cases m)
          case 0
          then show ?thesis using ne by (simp add: hd_conv_nth)
        next
          case (Suc m')
          then show ?thesis using sorted_tl m ne
            by (cases cos) (auto simp: less_imp_le)
        qed
        ultimately show "ci < (co # cos) ! j'" using m by simp
      qed
      then show ?thesis using res co_le by (intro exI[of _ 0]) simp
    next
      case False
      then have ne: "cos \<noteq> []" and hd_le: "hd cos \<le> ci" by auto
      from Cons.IH[OF sorted_tl ne hd_le, of "Some k" "k + 1"]
      obtain j where j: "j < length cos"
        "scan_offsets ci (Some k) (k + 1) cos = Some (k + 1 + int j)"
        "cos ! j \<le> ci" "\<forall>j'<length cos. j < j' \<longrightarrow> ci < cos ! j'"
        by blast
      have res: "scan_offsets ci i k (co # cos) = Some (k + int (Suc j))"
        using lt j(2) by simp
      have "\<forall>j'<length (co # cos). Suc j < j' \<longrightarrow> ci < (co # cos) ! j'"
      proof (intro allI impI)
        fix j' assume a: "j' < length (co # cos)" "Suc j < j'"
        then obtain m where m: "j' = Suc m" "m < length cos" "j < m" by (cases j') auto
        then show "ci < (co # cos) ! j'" using j(4) by simp
      qed
      then show ?thesis using res j(1,3) by (intro exI[of _ "Suc j"]) simp
    qed
  qed
qed

lemma scan_offsets_before:
  "cos \<noteq> [] \<Longrightarrow> ci < hd cos \<Longrightarrow> scan_offsets ci i k cos = Some (k - 1)"
  by (cases cos) auto

text \<open>
  Claim C1. For a span whose unit has at least one token and strictly increasing
  \<open>char_offsets\<close>, \<open>char_to_word_index(ci)\<close> is \<open>-1\<close> when \<open>ci\<close> is below
  the first offset; otherwise it is the largest index \<open>i\<close> with
  \<open>char_offsets[i] \<le> ci\<close>, which is the only index with
  \<open>char_offsets[i] \<le> ci < char_offsets[i+1]\<close>, and the last index when \<open>ci\<close>
  is at or beyond the last offset.
\<close>

theorem char_to_word_index_floor:
  assumes offs: "char_offsets (span_context s) = offs"
    and ne: "offs \<noteq> []"
    and inc: "sorted_wrt (<) offs"
  shows "(ci < offs ! 0 \<longrightarrow> char_to_word_index s ci = Some (- 1)) \<and>
         (offs ! 0 \<le> ci \<longrightarrow>
            (\<exists>i<length offs.
               char_to_word_index s ci = Some (int i) \<and>
               offs ! i \<le> ci \<and>
               (\<forall>j<length offs. offs ! j \<le> ci \<longrightarrow> j \<le> i) \<and>
               (i + 1 < length offs \<longrightarrow> ci < offs ! (i + 1)) \<and>
               (offs ! (length offs - 1) \<le> ci \<longrightarrow> i = length offs - 1) \<and>
               (\<forall>j<length offs.
                  offs ! j \<le> ci \<and> (j + 1 < length offs \<longrightarrow> ci < offs ! (j + 1)) \<longrightarrow> j = i)))"
proof (intro conjI impI)
  assume "ci < offs ! 0"
  then have "ci < hd offs" using ne by (simp add: hd_conv_nth)
  then show "char_to_word_index s ci = Some (- 1)"
    using scan_offsets_before[OF ne, of ci None 0] by (simp add: char_to_word_index_def offs)
next
  assume "offs ! 0 \<le> ci"
  then have "hd offs \<le> ci" using ne by (simp add: hd_conv_nth)
  from scan_offsets_floor[OF inc ne this, of None 0]
  obtain i where i: "i < length offs" "scan_offsets ci None 0 offs = Some (int i)"
    "offs ! i \<le> ci" and above: "\<forall>j'<length offs. i < j' \<longrightarrow> ci < offs ! j'"
    by auto
  have res: "char_to_word_index s ci = Some (int i)"
    using i(2) by (simp add: char_to_word_index_def offs)
  have largest: "\<forall>j<length offs. offs ! j \<le> ci \<longrightarrow> j \<le> i"
  proof (intro allI impI)
    fix j assume "j < length offs" "offs ! j \<le> ci"
    then have "\<not> i < j" using above by fastforce
    then show "j \<le> i" by simp
  qed
  have nxt: "i + 1 < length offs \<longrightarrow> ci < offs ! (i + 1)"
    using above by simp
  have lst: "offs ! (length offs - 1) \<le> ci \<longrightarrow> i = length offs - 1"
  proof
    assume a: "offs ! (length offs - 1) \<le> ci"
    have "length offs - 1 < length offs" using ne by simp
    then have "length offs - 1 \<le> i" using largest a by blast
    then show "i = length offs - 1" using i(1) by simp
  qed
  have uniq: "\<forall>j<length offs.
      offs ! j \<le> ci \<and> (j + 1 < length offs \<longrightarrow> ci < offs ! (j + 1)) \<longrightarrow> j = i"
  proof (intro allI impI)
    fix j assume j: "j < length offs"
      and h: "offs ! j \<le> ci \<and> (j + 1 < length offs \<longrightarrow> ci < offs ! (j + 1))"
    have le: "j \<le> i" using largest j h by blast
    show "j = i"
    proof (rule ccontr)
      assume "j \<noteq> i"
      then have lt: "j + 1 \<le> i" using le by simp
      then have "ci < offs ! (j + 1)" using h i(1) by simp
      moreover have "offs ! (j + 1) \<le> offs ! i"
        using strict_sorted_nth_mono[OF inc lt i(1)] .
      ultimately show False using i(3) by simp
    qed
  qed
  show "\<exists>i<length offs.
          char_to_word_index s ci = Some (int i) \<and>
          offs ! i \<le> ci \<and>
          (\<forall>j<length offs. offs ! j \<le> ci \<longrightarrow> j \<le> i) \<and>
          (i + 1 < length offs \<longrightarrow> ci < offs ! (i + 1)) \<and>
          (offs ! (length offs - 1) \<le> ci \<longrightarrow> i = length offs - 1) \<and>
          (\<forall>j<length offs.
             offs ! j \<le> ci \<and> (j + 1 < length offs \<longrightarrow> ci < offs ! (j + 1)) \<longrightarrow> j = i)"
    using i(1) res i(3) largest nxt lst uniq by blast
qed

theorem char_to_word_index_floor_witness:
  "char_offsets (span_context ex_span) = [0, 4, 8, 11] \<and>
   sorted_wrt (<) [0, 4, 8, 11 :: int] \<and>
   char_to_word_index ex_span (- 3) = Some (- 1) \<and>
   (\<exists>i<length [0, 4, 8, 11 :: int].
      char_to_word_index ex_span 9 = Some (int i) \<and> [0, 4, 8, 11 :: int] ! i \<le> 9) \<and>
   char_to_word_index ex_span 9 = Some 2"
proof -
  have inc: "sorted_wrt (<) [0, 4, 8, 11 :: int]" by simp
  have ne: "[0, 4, 8, 11 :: int] \<noteq> []" by simp
  note th = char_to_word_index_floor[OF ex_span_offsets ne inc]
  have p: "- 3 < [0, 4, 8, 11 :: int] ! 0" by simp
  have a: "char_to_word_index ex_span (- 3) = Some (- 1)"
    using th[of "- 3", THEN conjunct1, THEN mp, OF p] .
  have q: "[0, 4, 8, 11 :: int] ! 0 \<le> 9" by simp
  have b: "\<exists>i<length [0, 4, 8, 11 :: int].
      char_to_word_index ex_span 9 = Some (int i) \<and> [0, 4, 8, 11 :: int] ! i \<le> 9"
    using th[of 9, THEN conjunct2, THEN mp, OF q] by blast
  have c: "char_to_word_index ex_span 9 = Some 2"
    by (simp add: char_to_word_index_def ex_span_offsets)
  show ?thesis
    by (intro conjI) (rule ex_span_offsets, rule inc, rule a, rule b, rule c)
qed

lemma empty_span_offsets: "char_offsets (span_context empty_span) = []"
  by (simp add: empty_span_def init_def empty_sentence_def)

text \<open>
  Claim C5. Over strictly increasing \<open>char_offsets\<close> and for every token index
  \<open>0 \<le> wi < n\<close>, \<open>word_to_char_index(wi)\<close> returns an offset and
  \<open>char_to_word_index\<close> of that offset is \<open>wi\<close> again.
\<close>

theorem char_to_word_index_left_inverse:
  assumes offs: "char_offsets (span_context s) = offs"
    and inc: "sorted_wrt (<) offs"
    and lo: "0 \<le> wi"
    and hi: "wi < int (length offs)"
  shows "\<exists>c. word_to_char_index s wi = Inr c \<and> char_to_word_index s c = Some wi"
proof -
  define w where "w = nat wi"
  have w: "w < length offs" "int w = wi" using lo hi by (simp_all add: w_def)
  have ne: "offs \<noteq> []" using w(1) by auto
  have look: "word_to_char_index s wi = Inr (offs ! w)"
    using lo hi by (simp add: word_to_char_index_def py_index_def offs w_def)
  have "offs ! 0 \<le> offs ! w"
    using strict_sorted_nth_mono[OF inc _ w(1), of 0] by simp
  then have "hd offs \<le> offs ! w" using ne by (simp add: hd_conv_nth)
  from scan_offsets_floor[OF inc ne this, of None 0]
  obtain i where i: "i < length offs" "scan_offsets (offs ! w) None 0 offs = Some (int i)"
    "offs ! i \<le> offs ! w" and above: "\<forall>j'<length offs. i < j' \<longrightarrow> offs ! w < offs ! j'"
    by auto
  have "\<not> i < w" using above w(1) by fastforce
  moreover have "\<not> w < i"
  proof
    assume "w < i"
    then have "offs ! w < offs ! i" using inc i(1) by (simp add: sorted_wrt_iff_nth_less)
    then show False using i(3) by simp
  qed
  ultimately have "i = w" by simp
  then have "char_to_word_index s (offs ! w) = Some wi"
    using i(2) w(2) by (simp add: char_to_word_index_def offs)
  then show ?thesis using look by blast
qed

theorem char_to_word_index_left_inverse_witness:
  "char_offsets (span_context ex_span) = [0, 4, 8, 11] \<and>
   sorted_wrt (<) [0, 4, 8, 11 :: int] \<and> (0 :: int) \<le> 2 \<and> 2 < int (length [0, 4, 8, 11 :: int]) \<and>
   (\<exists>c. word_to_char_index ex_span 2 = Inr c \<and> char_to_word_index ex_span c = Some 2) \<and>
   word_to_char_index ex_span 2 = Inr 8"
proof -
  have inc: "sorted_wrt (<) [0, 4, 8, 11 :: int]" by simp
  have lo: "(0 :: int) \<le> 2" by simp
  have hi: "2 < int (length [0, 4, 8, 11 :: int])" by simp
  note th = char_to_word_index_left_inverse[OF ex_span_offsets inc lo hi]
  have v: "word_to_char_index ex_span 2 = Inr 8"
    by (simp add: word_to_char_index_def py_index_def ex_span_offsets)
  show ?thesis
    by (intro conjI) (rule ex_span_offsets, rule inc, rule lo, rule hi, rule th, rule v)
qed

text \<open>
  Claim C6, as amended. \<open>word_to_char_index(wi)\<close> is the list index
  \<open>char_offsets[wi]\<close> of Python: it returns \<open>char_offsets[wi]\<close> for
  \<open>0 \<le> wi < n\<close>, it returns \<open>char_offsets[n + wi]\<close> for \<open>-n \<le> wi < 0\<close>, and it
  raises \<open>IndexError\<close> for \<open>wi \<ge> n\<close> and for \<open>wi < -n\<close>.
\<close>

theorem word_to_char_index_python_index:
  assumes offs: "char_offsets (span_context s) = offs"
  shows "(0 \<le> wi \<and> wi < int (length offs) \<longrightarrow> word_to_char_index s wi = Inr (offs ! nat wi)) \<and>
         (- int (length offs) \<le> wi \<and> wi < 0 \<longrightarrow>
            word_to_char_index s wi = Inr (offs ! nat (wi + int (length offs)))) \<and>
         (int (length offs) \<le> wi \<or> wi < - int (length offs) \<longrightarrow>
            word_to_char_index s wi = Inl IndexError)"
  by (auto simp: word_to_char_index_def py_index_def offs)

theorem word_to_char_index_python_index_witness:
  "char_offsets (span_context ex_span) = [0, 4, 8, 11] \<and>
   word_to_char_index ex_span 2 = Inr 8 \<and>
   word_to_char_index ex_span (- 1) = Inr 11 \<and>
   word_to_char_index ex_span 4 = Inl IndexError \<and>
   word_to_char_index ex_span (- 5) = Inl IndexError"
proof -
  note th = word_to_char_index_python_index[OF ex_span_offsets]
  have a: "word_to_char_index ex_span 2 = Inr 8"
    using th[of 2, THEN conjunct1] by simp
  have b: "word_to_char_index ex_span (- 1) = Inr 11"
    using th[of "- 1", THEN conjunct2, THEN conjunct1] by simp
  have c: "word_to_char_index ex_span 4 = Inl IndexError"
    using th[of 4, THEN conjunct2, THEN conjunct2] by simp
  have d: "word_to_char_index ex_span (- 5) = Inl IndexError"
    using th[of "- 5", THEN conjunct2, THEN conjunct2] by simp
  show ?thesis
    by (intro conjI) (rule ex_span_offsets, rule a, rule b, rule c, rule d)
qed

text \<open>
  The claim as stated fails: over four tokens the index \<open>-1\<close> is outside
  \<open>[0, 4)\<close> and yet returns the last offset.
\<close>

theorem word_to_char_index_negative_counterexample:
  "length (char_offsets (span_context ex_span)) = 4 \<and>
   word_to_char_index ex_span (- 1) = Inr 11 \<and>
   word_to_char_index ex_span (- 1) \<noteq> Inl IndexError"
  by (simp add: word_to_char_index_def py_index_def ex_span_offsets)

text \<open>
  Claim C9. Over a unit with no tokens, \<open>char_to_word_index(ci)\<close> returns
  \<open>None\<close> for every \<open>ci\<close> (neither \<open>-1\<close> nor an index), and so do
  \<open>get_word_start\<close> and \<open>get_word_end\<close>.
\<close>

theorem char_to_word_index_no_tokens:
  assumes "char_offsets (span_context s) = []"
  shows "char_to_word_index s ci = None \<and> get_word_start s = None \<and> get_word_end s = None"
  using assms by (simp add: get_word_start_def get_word_end_def char_to_word_index_def)

theorem char_to_word_index_no_tokens_witness:
  "char_offsets (span_context empty_span) = [] \<and>
   char_to_word_index empty_span 0 = None \<and>
   get_word_start empty_span = None \<and> get_word_end empty_span = None"
  using char_to_word_index_no_tokens[OF empty_span_offsets, of 0] empty_span_offsets by simp

section \<open>Properties of equality\<close>

text \<open>
  Claim C10. \<open>s == x\<close> and \<open>s != x\<close> return a truth value for every right
  operand \<open>x\<close>: when \<open>x\<close> lacks one of \<open>context\<close>, \<open>char_start\<close>,
  \<open>char_end\<close>, they return \<open>False\<close> and \<open>True\<close>; when \<open>x\<close> has all three,
  \<open>s == x\<close> holds exactly when the context is the same object and both ends agree, and
  \<open>s != x\<close> is its negation.
\<close>

theorem span_eq_total:
  "(\<exists>r. span_eq s x = Inr r) \<and> (\<exists>r. span_ne s x = Inr r) \<and>
   (x ''context'' = None \<or> x ''char_start'' = None \<or> x ''char_end'' = None \<longrightarrow>
      span_eq s x = Inr False \<and> span_ne s x = Inr True) \<and>
   (\<forall>c a b. x ''context'' = Some c \<and> x ''char_start'' = Some a \<and> x ''char_end'' = Some b \<longrightarrow>
      span_eq s x =
        Inr (c = PObj (oid (span_context s)) \<and> a = PInt (char_start s) \<and> b = PInt (char_end s)) \<and>
      span_ne s x =
        Inr (\<not> (c = PObj (oid (span_context s)) \<and> a = PInt (char_start s) \<and> b = PInt (char_end s))))"
  by (auto simp: span_eq_def span_ne_def eq_body_def ne_body_def getattr_def context_eq_def
      int_eq_def split: option.splits)

theorem span_eq_total_witness:
  "span_eq ex_span no_attrs = Inr False \<and> span_ne ex_span no_attrs = Inr True \<and>
   span_eq ex_span (span_obj ex_span) = Inr True \<and> span_ne ex_span (span_obj ex_span) = Inr False"
proof -
  have n: "no_attrs ''context'' = None \<or> no_attrs ''char_start'' = None \<or> no_attrs ''char_end'' = None"
    by (simp add: no_attrs_def)
  have a: "span_eq ex_span no_attrs = Inr False \<and> span_ne ex_span no_attrs = Inr True"
    using span_eq_total[of ex_span no_attrs, THEN conjunct2, THEN conjunct2, THEN conjunct1] n
    by blast
  have p: "span_obj ex_span ''context'' = Some (PObj (oid (span_context ex_span))) \<and>
           span_obj ex_span ''char_start'' = Some (PInt (char_start ex_span)) \<and>
           span_obj ex_span ''char_end'' = Some (PInt (char_end ex_span))"
    by (simp add: span_obj_def)
  have b: "span_eq ex_span (span_obj ex_span) = Inr True \<and>
           span_ne ex_span (span_obj ex_span) = Inr False"
    using span_eq_total[of ex_span "span_obj ex_span", THEN conjunct2, THEN conjunct2,
        THEN conjunct2, THEN spec, THEN spec, THEN spec, THEN mp, OF p]
    by simp
  show ?thesis using a b by blast
qed

section \<open>Properties of slicing and promotion\<close>

text \<open>
  Claim C2. Slicing with \<open>(start, stop)\<close> returns a span over the same unit with
  \<open>char_start' = char_start\<close> when \<open>start\<close> is absent and
  \<open>char_start + start\<close> otherwise, and with \<open>char_end' = char_end\<close> when
  \<open>stop\<close> is absent, \<open>char_start + stop - 1\<close> when \<open>stop \<ge> 0\<close> and
  \<open>char_end + stop\<close> when \<open>stop < 0\<close>. With neither bound the result is equal
  (\<open>==\<close>) to the original, and \<open>stop = -1\<close> drops the last character only.
\<close>

theorem getitem_slice_range:
  "\<exists>r. getitem s (Slice start stop step) = Inr r \<and>
        span_context r = span_context s \<and>
        (start = None \<longrightarrow> char_start r = char_start s) \<and>
        (\<forall>a. start = Some a \<longrightarrow> char_start r = char_start s + a) \<and>
        (stop = None \<longrightarrow> char_end r = char_end s) \<and>
        (\<forall>b. stop = Some b \<and> 0 \<le> b \<longrightarrow> char_end r = char_start s + b - 1) \<and>
        (\<forall>b. stop = Some b \<and> b < 0 \<longrightarrow> char_end r = char_end s + b) \<and>
        (start = None \<and> stop = None \<longrightarrow>
           span_eq s (span_obj r) = Inr True \<and> span_ne s (span_obj r) = Inr False) \<and>
        (start = None \<and> stop = Some (- 1) \<longrightarrow>
           char_start r = char_start s \<and> char_end r = char_end s - 1 \<and> len r = len s - 1)"
  by (cases "cls s")
    (auto simp: get_instance_def init_def span_eq_def span_ne_def eq_body_def ne_body_def
      getattr_def span_obj_def context_eq_def int_eq_def len_def)

theorem getitem_slice_range_witness:
  "\<exists>r. getitem ex_span (Slice None (Some (- 4)) None) = Inr r \<and>
        span_context r = ex_sentence \<and> char_start r = 4 \<and> char_end r = 6"
proof -
  obtain r where r: "getitem ex_span (Slice None (Some (- 4)) None) = Inr r"
    "span_context r = span_context ex_span"
    "None = (None :: int option) \<longrightarrow> char_start r = char_start ex_span"
    "\<forall>b. Some (- 4) = Some b \<and> b < 0 \<longrightarrow> char_end r = char_end ex_span + b"
    using getitem_slice_range[of ex_span None "Some (- 4)" None] by blast
  have "span_context r = ex_sentence" "char_start r = 4" "char_end r = 6"
    using r(2,3,4) by (simp_all add: ex_span_def init_def)
  then show ?thesis using r(1) by blast
qed

text \<open>
  Claim C7, as amended. A slice with a step is accepted and its step is ignored: the
  result is that of the same slice without the step. What raises
  \<open>NotImplementedError\<close> is a key that is not a slice.
\<close>

theorem getitem_step_ignored:
  "getitem s (Slice start stop step) = getitem s (Slice start stop None) \<and>
   (\<exists>r. getitem s (Slice start stop step) = Inr r) \<and>
   getitem s (Other v) = Inl NotImplementedError"
  by simp

theorem getitem_step_ignored_witness:
  "getitem ex_span (Slice (Some 0) (Some 4) (Some 2)) = getitem ex_span (Slice (Some 0) (Some 4) None) \<and>
   getitem ex_span (Other (PInt 0)) = Inl NotImplementedError"
  using getitem_step_ignored[of ex_span "Some 0" "Some 4" "Some 2" "PInt 0"] by blast

text \<open>
  The claim as stated fails: the slice \<open>[0:4:2]\<close> of the sample span raises
  nothing and returns the span of the characters 4 to 7.
\<close>

theorem getitem_step_counterexample:
  "getitem ex_span (Slice (Some 0) (Some 4) (Some 2)) = Inr (init TemporarySpan ex_sentence 7 4 PNone)"
  by (simp add: ex_span_def init_def get_instance_def)



text \<open>
  Claim C3. The claim describes what \<open>promote\<close> is meant to do; the code does not do
  it. The body of the class \<open>Span\<close> raises \<open>ArgumentError\<close>, so the name
  \<open>Span\<close> is unbound and \<open>promote\<close> raises \<open>NameError\<close> on every span.
\<close>

theorem promote_raises:
  "Span_class_body = Inl ArgumentError \<and> promote s = Inl NameError"
  by (simp add: promote_def Span_class_body_def UniqueConstraint_def)

theorem promote_raises_witness:
  "meta ex_meta_span = PStr ''gold'' \<and> promote ex_meta_span = Inl NameError"
  using promote_raises[of ex_meta_span] by (simp add: ex_meta_span_def init_def)

section \<open>Properties of the attribute projection\<close>

text \<open>
  A slice with both bounds inside the sequence holds the items at the positions from the
  first bound up to the second, the second excluded.
\<close>

lemma py_slice_in_range:
  assumes "0 \<le> a" and "0 \<le> b" and "b \<le> int (length xs)"
  shows "py_slice xs a b = map ((!) xs) [nat a..<nat b]"
proof -
  have hi: "slice_bound (length xs) b = nat b"
    using assms by (simp add: slice_bound_def)
  have lo: "slice_bound (length xs) a = min (nat a) (length xs)"
    using assms by (simp add: slice_bound_def)
  have bn: "nat b \<le> length xs" using assms by simp
  show ?thesis
  proof (cases "nat a \<le> nat b")
    case True
    then have l: "min (nat a) (length xs) = nat a" using bn by simp
    have "take (nat b - nat a) (drop (nat a) xs) = map ((!) xs) [nat a..<nat b]"
    proof (rule nth_equalityI)
      show "length (take (nat b - nat a) (drop (nat a) xs)) = length (map ((!) xs) [nat a..<nat b])"
        using True bn by simp
    next
      fix i assume "i < length (take (nat b - nat a) (drop (nat a) xs))"
      then have i: "i < nat b - nat a" by simp
      then have "nat a + i < nat b" by simp
      then show "take (nat b - nat a) (drop (nat a) xs) ! i = map ((!) xs) [nat a..<nat b] ! i"
        using i bn by simp
    qed
    then show ?thesis by (simp add: py_slice_def hi lo l)
  next
    case False
    then have "nat b - min (nat a) (length xs) = 0" using bn by simp
    then show ?thesis using False by (simp add: py_slice_def hi lo)
  qed
qed

text \<open>
  \<open>char_to_word_index\<close> never returns an index below \<open>-1\<close>.
\<close>

lemma scan_offsets_lower:
  "scan_offsets ci i k cos = Some w \<Longrightarrow> i = Some w \<or> k - 1 \<le> w"
proof (induction cos arbitrary: i k)
  case Nil
  then show ?case by simp
next
  case (Cons co cos)
  show ?case
  proof (cases "ci = co \<or> ci < co")
    case True
    then show ?thesis using Cons.prems by (auto split: if_splits)
  next
    case False
    then have "scan_offsets ci (Some k) (k + 1) cos = Some w" using Cons.prems by simp
    from Cons.IH[OF this] show ?thesis by auto
  qed
qed

lemma char_to_word_index_lower: "char_to_word_index s ci = Some w \<Longrightarrow> - 1 \<le> w"
  using scan_offsets_lower[of ci None 0 "char_offsets (span_context s)" w]
  by (simp add: char_to_word_index_def)

lemma py_join_strs: "py_join sep (PList (map PStr xs)) = Inr (join_strs sep xs)"
proof -
  have "list_all is_str (map PStr xs)" by (induction xs) simp_all
  moreover have "map str_of (map PStr xs) = xs" by (induction xs) simp_all
  ultimately show ?thesis by simp
qed

lemma py_slice_map: "py_slice (map f xs) a b = map f (py_slice xs a b)"
  by (simp add: py_slice_def Let_def take_map drop_map)

text \<open>
  A projected slice that holds an item other than a string cannot be joined.
\<close>

lemma get_attrib_span_not_strs:
  assumes "a \<noteq> ''words'' \<and> getattribute (span_context s) a = Inr (PList vs) \<and>
      get_word_start s = Some ws \<and> get_word_end s = Some we \<and>
      \<not> list_all is_str (py_slice vs ws (we + 1))"
  shows "get_attrib_span s a sep = Inl TypeError"
  using assms by (simp add: get_attrib_span_def get_attrib_tokens_def)

text \<open>
  Claim C4, as amended. For a span with \<open>0 \<le> char_start \<le> char_end < len(text)\<close>,
  \<open>get_attrib_span('words', sep)\<close> returns the characters of the text at the positions
  \<open>char_start\<close> to \<open>char_end\<close>, both included, and so the whole text for a span
  that covers the unit. For every other attribute whose value is a sequence of strings, and
  a span with \<open>get_word_start() \<ge> 0\<close> and \<open>get_word_end() < n\<close>, it returns the
  items from \<open>get_word_start()\<close> to \<open>get_word_end()\<close>, both included, joined with the
  separator. For every other attribute whose value is a sequence, it raises
  \<open>TypeError\<close> when the slice from \<open>get_word_start()\<close> to \<open>get_word_end() + 1\<close>
  holds an item that is not a string; so it does for a sequence of integers
  (\<open>dep_parents\<close>, \<open>char_offsets\<close>) whenever
  \<open>0 \<le> get_word_start() \<le> get_word_end() < n\<close>.
\<close>

theorem get_attrib_span_projection:
  "(0 \<le> char_start s \<and> char_start s \<le> char_end s \<and>
      char_end s < int (length (sentence_text (span_context s))) \<longrightarrow>
      get_attrib_span s ''words'' sep =
        Inr (map ((!) (sentence_text (span_context s))) [nat (char_start s)..<nat (char_end s) + 1])) \<and>
   (char_start s = 0 \<and> char_end s = int (length (sentence_text (span_context s))) - 1 \<longrightarrow>
      get_attrib_span s ''words'' sep = Inr (sentence_text (span_context s))) \<and>
   (\<forall>xs ws we.
      a \<noteq> ''words'' \<and> getattribute (span_context s) a = Inr (PList (map PStr xs)) \<and>
      get_word_start s = Some ws \<and> get_word_end s = Some we \<and> 0 \<le> ws \<and> we < int (length xs) \<longrightarrow>
      get_attrib_span s a sep = Inr (join_strs sep (map ((!) xs) [nat ws..<nat (we + 1)]))) \<and>
   (\<forall>vs ws we.
      a \<noteq> ''words'' \<and> getattribute (span_context s) a = Inr (PList vs) \<and>
      get_word_start s = Some ws \<and> get_word_end s = Some we \<and>
      \<not> list_all is_str (py_slice vs ws (we + 1)) \<longrightarrow>
      get_attrib_span s a sep = Inl TypeError) \<and>
   (\<forall>ns ws we.
      a \<noteq> ''words'' \<and> getattribute (span_context s) a = Inr (PList (map PInt ns)) \<and>
      get_word_start s = Some ws \<and> get_word_end s = Some we \<and>
      0 \<le> ws \<and> ws \<le> we \<and> we < int (length ns) \<longrightarrow>
      get_attrib_span s a sep = Inl TypeError)"
proof (intro conjI impI allI)
  assume r: "0 \<le> char_start s \<and> char_start s \<le> char_end s \<and>
      char_end s < int (length (sentence_text (span_context s)))"
  then have "py_slice (sentence_text (span_context s)) (char_start s) (char_end s + 1) =
      map ((!) (sentence_text (span_context s))) [nat (char_start s)..<nat (char_end s + 1)]"
    by (intro py_slice_in_range) simp_all
  moreover have "nat (char_end s + 1) = nat (char_end s) + 1" using r by auto
  ultimately show "get_attrib_span s ''words'' sep =
      Inr (map ((!) (sentence_text (span_context s))) [nat (char_start s)..<nat (char_end s) + 1])"
    by (simp add: get_attrib_span_def)
next
  assume f: "char_start s = 0 \<and> char_end s = int (length (sentence_text (span_context s))) - 1"
  then have "py_slice (sentence_text (span_context s)) (char_start s) (char_end s + 1) =
      sentence_text (span_context s)"
    by (simp add: py_slice_def slice_bound_def)
  then show "get_attrib_span s ''words'' sep = Inr (sentence_text (span_context s))"
    by (simp add: get_attrib_span_def)
next
  fix xs ws we
  assume h: "a \<noteq> ''words'' \<and> getattribute (span_context s) a = Inr (PList (map PStr xs)) \<and>
      get_word_start s = Some ws \<and> get_word_end s = Some we \<and> 0 \<le> ws \<and> we < int (length xs)"
  then have "- 1 \<le> we" using char_to_word_index_lower[of s "char_end s" we]
    by (simp add: get_word_end_def)
  then have sl: "py_slice xs ws (we + 1) = map ((!) xs) [nat ws..<nat (we + 1)]"
    using h by (intro py_slice_in_range) simp_all
  have tok: "get_attrib_tokens s a = Inr (PList (map PStr (py_slice xs ws (we + 1))))"
    using h by (simp add: get_attrib_tokens_def py_slice_map)
  have "get_attrib_span s a sep = py_join sep (PList (map PStr (py_slice xs ws (we + 1))))"
    using h by (simp add: get_attrib_span_def tok)
  also have "\<dots> = Inr (join_strs sep (py_slice xs ws (we + 1)))"
    by (rule py_join_strs)
  finally show "get_attrib_span s a sep = Inr (join_strs sep (map ((!) xs) [nat ws..<nat (we + 1)]))"
    by (simp only: sl)
next
  fix vs ws we
  assume h: "a \<noteq> ''words'' \<and> getattribute (span_context s) a = Inr (PList vs) \<and>
      get_word_start s = Some ws \<and> get_word_end s = Some we \<and>
      \<not> list_all is_str (py_slice vs ws (we + 1))"
  then show "get_attrib_span s a sep = Inl TypeError"
    by (rule get_attrib_span_not_strs)
next
  fix ns ws we
  assume h: "a \<noteq> ''words'' \<and> getattribute (span_context s) a = Inr (PList (map PInt ns)) \<and>
      get_word_start s = Some ws \<and> get_word_end s = Some we \<and>
      0 \<le> ws \<and> ws \<le> we \<and> we < int (length ns)"
  then have "py_slice (map PInt ns) ws (we + 1) = map ((!) (map PInt ns)) [nat ws..<nat (we + 1)]"
    by (intro py_slice_in_range) simp_all
  moreover have "nat ws \<in> set [nat ws..<nat (we + 1)]" using h by auto
  moreover have "nat ws < length ns" using h by auto
  ultimately have "PInt (ns ! nat ws) \<in> set (py_slice (map PInt ns) ws (we + 1))"
    by force
  then have "\<not> list_all is_str (py_slice (map PInt ns) ws (we + 1))"
    by (auto simp: list_all_iff intro!: bexI[of _ "PInt (ns ! nat ws)"])
  with h show "get_attrib_span s a sep = Inl TypeError"
    by (intro get_attrib_span_not_strs) simp
qed

theorem get_attrib_span_projection_witness:
  "get_attrib_span ex_span ''words'' '' '' = Inr ''cat sat'' \<and>
   get_attrib_span full_span ''words'' '' '' = Inr ''The cat sat.'' \<and>
   get_attrib_span ex_span ''lemmas'' '' '' = Inr ''cat sit'' \<and>
   get_attrib_span ex_span ''char_offsets'' '' '' = Inl TypeError"
proof -
  have r: "0 \<le> char_start ex_span \<and> char_start ex_span \<le> char_end ex_span \<and>
      char_end ex_span < int (length (sentence_text (span_context ex_span)))"
    by (simp add: ex_span_def init_def ex_sentence_def)
  have w: "get_attrib_span ex_span ''words'' '' '' =
      Inr (map ((!) (sentence_text (span_context ex_span)))
        [nat (char_start ex_span)..<nat (char_end ex_span) + 1])"
    using get_attrib_span_projection[of ex_span "'' ''" "''lemmas''", THEN conjunct1, THEN mp, OF r] .
  have we: "map ((!) (sentence_text (span_context ex_span)))
        [nat (char_start ex_span)..<nat (char_end ex_span) + 1] = ''cat sat''"
    by code_simp
  have f: "char_start full_span = 0 \<and>
      char_end full_span = int (length (sentence_text (span_context full_span))) - 1"
    by (simp add: full_span_def init_def ex_sentence_def)
  have u: "get_attrib_span full_span ''words'' '' '' = Inr (sentence_text (span_context full_span))"
    using get_attrib_span_projection[of full_span "'' ''" "''lemmas''", THEN conjunct2,
        THEN conjunct1, THEN mp, OF f] .
  have ue: "sentence_text (span_context full_span) = ''The cat sat.''"
    by (simp add: full_span_def init_def ex_sentence_def)
  have h: "''lemmas'' \<noteq> ''words'' \<and>
      getattribute (span_context ex_span) ''lemmas'' =
        Inr (PList (map PStr [''the'', ''cat'', ''sit'', ''.''])) \<and>
      get_word_start ex_span = Some 1 \<and> get_word_end ex_span = Some 2 \<and>
      (0 :: int) \<le> 1 \<and> 2 < int (length [''the'', ''cat'', ''sit'', ''.''])"
    by (simp add: getattribute_def opt_val_def str_list_def get_word_start_def get_word_end_def
        char_to_word_index_def ex_span_def init_def ex_sentence_def)
  have l: "get_attrib_span ex_span ''lemmas'' '' '' =
      Inr (join_strs '' '' (map ((!) [''the'', ''cat'', ''sit'', ''.'']) [nat 1..<nat (2 + 1)]))"
    using get_attrib_span_projection[of ex_span "'' ''" "''lemmas''", THEN conjunct2,
        THEN conjunct2, THEN conjunct1, THEN spec, THEN spec, THEN spec, THEN mp, OF h] .
  have le: "join_strs '' '' (map ((!) [''the'', ''cat'', ''sit'', ''.'']) [nat 1..<nat (2 + 1)]) =
      ''cat sit''"
    by code_simp
  have g: "''char_offsets'' \<noteq> ''words'' \<and>
      getattribute (span_context ex_span) ''char_offsets'' = Inr (PList (map PInt [0, 4, 8, 11])) \<and>
      get_word_start ex_span = Some 1 \<and> get_word_end ex_span = Some 2 \<and>
      (0 :: int) \<le> 1 \<and> (1 :: int) \<le> 2 \<and> 2 < int (length [0, 4, 8, 11 :: int])"
    by (simp add: getattribute_def int_list_def get_word_start_def get_word_end_def
        char_to_word_index_def ex_span_def init_def ex_sentence_def)
  have o: "get_attrib_span ex_span ''char_offsets'' '' '' = Inl TypeError"
    using get_attrib_span_projection[of ex_span "'' ''" "''char_offsets''", THEN conjunct2,
        THEN conjunct2, THEN conjunct2, THEN conjunct2, THEN spec, THEN spec, THEN spec,
        THEN mp, OF g] .
  show ?thesis using w we u ue l le o by simp
qed

text \<open>
  The claim as stated fails for an attribute that is present and is not a sequence of
  strings: \<open>dep_parents\<close> holds integers, and joining them raises \<open>TypeError\<close>.
\<close>

theorem get_attrib_span_dep_parents_counterexample:
  "getattribute (span_context ex_span) ''dep_parents'' = Inr (PList [PInt 2, PInt 3, PInt 0, PInt 3]) \<and>
   get_word_start ex_span = Some 1 \<and> get_word_end ex_span = Some 2 \<and>
   get_attrib_span ex_span ''dep_parents'' '' '' = Inl TypeError"
  by (simp add: get_attrib_span_def get_attrib_tokens_def get_word_start_def get_word_end_def
      char_to_word_index_def getattribute_def opt_val_def int_list_def py_slice_def
      slice_bound_def ex_span_def init_def ex_sentence_def)

text \<open>
  The scenario of the specification: the span of the characters 4 to 10 covers the
  tokens 1 to 2 and reads \<open>cat sat\<close>.
\<close>

lemma example_word_range: "get_word_start ex_span = Some 1 \<and> get_word_end ex_span = Some 2"
  by (simp add: get_word_start_def get_word_end_def char_to_word_index_def ex_span_def init_def
      ex_sentence_def)

lemma example_get_span: "get_span ex_span '' '' = Inr ''cat sat''"
  by (simp add: get_span_def get_attrib_span_def py_slice_def slice_bound_def ex_span_def
      init_def ex_sentence_def)

end
